theory Spec2Isabelle
  imports Main "HOL-Library.Word"
begin

section \<open>C strings and arrays of char\<close>

text \<open>
  The bridge in \<^verbatim>\<open>LogHelpers.c\<close> handles text only through \<^verbatim>\<open>char\<close> pointers.
  A \<^verbatim>\<open>char\<close> is a HOL \<^typ>\<open>char\<close> (one byte); the terminator is the byte 0.
\<close>

definition NUL :: char where
  "NUL = CHR 0x00"

text \<open>
  The string a \<^verbatim>\<open>const char*\<close> designates, given the bytes stored from the pointer on:
  everything before the first terminator.
\<close>

definition c_string :: "string \<Rightarrow> string" where
  "c_string bytes = takeWhile (\<lambda>c. c \<noteq> NUL) bytes"

text \<open>
  An array of \<^verbatim>\<open>char\<close> with automatic storage starts with indeterminate contents.
  A cell is \<open>None\<close> while nothing has been stored in it.
\<close>

type_synonym cell = "char option"

text \<open>
  Reading a string out of such an array, as a callee that receives a pointer to its first
  element does. The read has no defined result (\<open>None\<close>) when it meets an indeterminate
  cell or runs off the end of the array before a terminator.
\<close>

fun c_str :: "cell list \<Rightarrow> string option" where
  "c_str [] = None"
| "c_str (None # cells) = None"
| "c_str (Some c # cells) =
     (if c = NUL then Some [] else map_option ((#) c) (c_str cells))"


section \<open>The library call \<^verbatim>\<open>vsnprintf\<close>\<close>

text \<open>
  \<^verbatim>\<open>vsnprintf\<close> belongs to the C library, not to the bridge. What the library makes of a
  format and its arguments is a parameter of the model, so that every result below holds
  for all conversions, flags, widths, precisions and argument types, whatever the library
  does with them. The formatting may read the state \<open>'w\<close> of the program around the
  bridge (the locale, the objects that arguments point to) and may change it (a \<^verbatim>\<open>%n\<close>
  conversion stores through its argument, \<^verbatim>\<open>errno\<close> may be set). For a format, which is
  a pointer and may be null, the arguments and that state, it yields

    \<^item> \<open>None\<close> where ISO C leaves the behaviour of the call undefined;
    \<^item> \<open>Complete r w'\<close> where the call succeeds: \<open>r\<close> is the complete output, which
      formatting without a bound would produce, and \<open>w'\<close> the state afterwards;
    \<^item> \<open>Failed r w'\<close> where the call fails (an encoding error, an output longer than
      \<^verbatim>\<open>INT_MAX\<close>): \<open>r\<close> holds the characters produced up to the failure.
\<close>

datatype 'w formatted =
    Complete (produced: string) (after: 'w)
  | Failed (produced: string) (after: 'w)

type_synonym ('a, 'w) formatting = "string option \<Rightarrow> 'a list \<Rightarrow> 'w \<Rightarrow> 'w formatted option"

text \<open>
  The value \<^verbatim>\<open>vsnprintf\<close> returns: the length of the complete output, or a negative value
  after a failure.
\<close>

fun returned :: "'w formatted \<Rightarrow> int" where
  "returned (Complete r w) = int (length r)"
| "returned (Failed r w) = - 1"

text \<open>
  The bounded store (ISO C, 7.21.6.5): of the characters \<open>r\<close>, at most \<open>n - 1\<close> go into
  the array \<open>s\<close>, and a terminator is written after the characters actually stored; later
  cells are left alone; with \<open>n = 0\<close> nothing is stored. The standard states this
  without condition, so it applies to a call that fails as well.
\<close>

definition store_bounded :: "cell list \<Rightarrow> nat \<Rightarrow> string \<Rightarrow> cell list" where
  "store_bounded s n r =
     (if n = 0 then s
      else (let k = min (length r) (n - 1)
            in map Some (take k r) @ Some NUL # drop (k + 1) s))"

text \<open>
  \<^verbatim>\<open>vsnprintf(s, n, format, ap)\<close> in the state \<open>w\<close>: the array after the call, the value
  returned and the state afterwards. A bound \<open>n\<close> larger than the array is undefined.
\<close>

definition vsnprintf ::
  "('a, 'w) formatting \<Rightarrow> cell list \<Rightarrow> nat \<Rightarrow> string option \<Rightarrow> 'a list \<Rightarrow> 'w
     \<Rightarrow> (cell list \<times> int \<times> 'w) option" where
  "vsnprintf libc_format s n format ap w =
     (if length s < n then None
      else (case libc_format format ap w of
              None \<Rightarrow> None
            | Some res \<Rightarrow> Some (store_bounded s n (produced res), returned res, after res)))"


section \<open>\<^verbatim>\<open>LogHelpers.c\<close>\<close>

text \<open>
  The file declares no object of static storage duration. What persists between calls is
  therefore only what lies outside the bridge, the state \<open>'w\<close> of the program around it,
  which the library and \<^verbatim>\<open>swiftLogHandler\<close> may read and change. The handler is declared
  \<^verbatim>\<open>extern\<close> and enters the model as a parameter: a function from the string it is handed
  and the outer state to the outer state after it has returned.

  During a call of \<^verbatim>\<open>logMessageCallback\<close> the state has one more part, the local array.

  A call has the outcome \<open>Inl Undefined\<close> where C gives it no behaviour: the library call
  is undefined, or a string is read that has no terminator.
\<close>

datatype fault = Undefined

record 'w lmc_state =
  buffer :: "cell list"
  world :: 'w

text \<open>\<^verbatim>\<open>char buffer[2048];\<close> on entry.\<close>

definition enter :: "'w \<Rightarrow> 'w lmc_state" where
  "enter w = \<lparr>buffer = replicate 2048 None, world = w\<rparr>"

text \<open>
  \<^verbatim>\<open>vsnprintf(buffer, sizeof(buffer), format, args);\<close> with the value returned dropped.
  A \<^verbatim>\<open>char\<close> has size 1, so \<^verbatim>\<open>sizeof(buffer)\<close> is the number of cells of the array.
  \<^verbatim>\<open>va_start\<close> and \<^verbatim>\<open>va_end\<close> around the call only give access to the arguments after
  \<open>format\<close>, here the list \<open>args\<close>.
\<close>

definition call_vsnprintf ::
  "('a, 'w) formatting \<Rightarrow> string option \<Rightarrow> 'a list \<Rightarrow> 'w lmc_state
     \<Rightarrow> fault + 'w lmc_state" where
  "call_vsnprintf libc_format format args s =
     (case vsnprintf libc_format (buffer s) (length (buffer s)) format args (world s) of
        None \<Rightarrow> Inl Undefined
      | Some (b, n, w') \<Rightarrow> Inr (s\<lparr>buffer := b, world := w'\<rparr>))"

text \<open>\<^verbatim>\<open>swiftLogHandler(buffer);\<close> The handler reads the string that starts the array.\<close>

definition call_swiftLogHandler ::
  "(string \<Rightarrow> 'w \<Rightarrow> 'w) \<Rightarrow> 'w lmc_state \<Rightarrow> fault + 'w lmc_state" where
  "call_swiftLogHandler swiftLogHandler s =
     (case c_str (buffer s) of
        None \<Rightarrow> Inl Undefined
      | Some message \<Rightarrow> Inr (s\<lparr>world := swiftLogHandler message (world s)\<rparr>))"

text \<open>
  The function body: the two statements in order. It returns \<^verbatim>\<open>void\<close>, so what a
  caller has afterwards is the outer state alone; the array is gone with the call.
\<close>

definition logMessageCallback ::
  "('a, 'w) formatting \<Rightarrow> (string \<Rightarrow> 'w \<Rightarrow> 'w) \<Rightarrow> string option \<Rightarrow> 'a list \<Rightarrow> 'w
     \<Rightarrow> fault + 'w" where
  "logMessageCallback libc_format swiftLogHandler format args w =
     (case call_vsnprintf libc_format format args (enter w) of
        Inl e \<Rightarrow> Inl e
      | Inr s1 \<Rightarrow>
          (case call_swiftLogHandler swiftLogHandler s1 of
             Inl e \<Rightarrow> Inl e
           | Inr s2 \<Rightarrow> Inr (world s2)))"

text \<open>
  Pointers to functions are kept symbolic: a pointer is null or designates one of the
  functions of the program.
\<close>

datatype func = Fn_logMessageCallback | Fn_getLogMessageCallbackPointer | Fn_swiftLogHandler

datatype c_ptr = Null_ptr | Fun_ptr func

text \<open>\<^verbatim>\<open>return (void*)logMessageCallback;\<close>\<close>

definition getLogMessageCallbackPointer :: "'w \<Rightarrow> c_ptr \<times> 'w" where
  "getLogMessageCallbackPointer w = (Fun_ptr Fn_logMessageCallback, w)"


section \<open>A formatting to compute with\<close>

text \<open>
  For concrete calls, one formatting is written out. It follows ISO C (7.21.6.1) on the
  conversions \<^verbatim>\<open>%d\<close>, \<^verbatim>\<open>%i\<close>, \<^verbatim>\<open>%u\<close>, \<^verbatim>\<open>%c\<close>, \<^verbatim>\<open>%s\<close>, \<^verbatim>\<open>%f\<close>, \<^verbatim>\<open>%n\<close> and \<^verbatim>\<open>%%\<close> without flags,
  width, precision or length modifier, and yields \<open>None\<close> on everything else, defined by
  the standard or not. It serves as an instance of the parameter above; no general result
  depends on it.

  The outer state it works on holds the decimal point of the current locale, the \<^verbatim>\<open>int\<close>
  objects that pointer arguments may designate, by address, and the messages a handler
  has recorded.
\<close>

record process =
  decimal_point :: char
  int_objects :: "(nat \<times> 32 word) list"
  received :: "string list"

text \<open>
  An argument is an \<^verbatim>\<open>int\<close>, an \<^verbatim>\<open>unsigned int\<close> (both 32 bits wide), a \<^verbatim>\<open>char*\<close> (the
  null pointer or the bytes it points to), a finite \<^verbatim>\<open>double\<close> of value \<open>m * 2 ^ e\<close>, or
  the address of an \<^verbatim>\<open>int\<close>.
\<close>

datatype arg =
    Int_arg "32 word"
  | UInt_arg "32 word"
  | Str_arg "string option"
  | Double_arg int int
  | Int_ptr_arg nat

definition digit_char :: "nat \<Rightarrow> char" where
  "digit_char d = ''0123456789'' ! d"

fun decimal :: "nat \<Rightarrow> string" where
  "decimal n = (if n < 10 then [digit_char n] else decimal (n div 10) @ [digit_char (n mod 10)])"

declare decimal.simps [simp del]

text \<open>
  \<^verbatim>\<open>%f\<close> with the default precision: sign, integral part, the decimal point of the locale
  and six digits. Only values with at most six decimal places are covered, so that no
  rounding arises; \<open>micro\<close> is the magnitude in millionths.
\<close>

definition fixed_layout :: "char \<Rightarrow> bool \<Rightarrow> nat \<Rightarrow> string" where
  "fixed_layout point negative micro =
     (if negative then ''-'' else '''')
     @ decimal (micro div 1000000)
     @ [point]
     @ replicate (6 - length (decimal (micro mod 1000000))) (CHR ''0'')
     @ decimal (micro mod 1000000)"

definition fixed6 :: "char \<Rightarrow> int \<Rightarrow> int \<Rightarrow> string option" where
  "fixed6 point m e =
     (if \<bar>m\<bar> < 2 ^ 53 \<and> - 1074 \<le> e \<and> e \<le> 971
      then (if 0 \<le> e
            then Some (fixed_layout point (m < 0) (nat \<bar>m\<bar> * 1000000 * 2 ^ nat e))
            else if (nat \<bar>m\<bar> * 1000000) mod 2 ^ nat (- e) = 0
            then Some (fixed_layout point (m < 0) (nat \<bar>m\<bar> * 1000000 div 2 ^ nat (- e)))
            else None)
      else None)"

text \<open>A store into the \<^verbatim>\<open>int\<close> at an address; there must be one.\<close>

fun store_int :: "nat \<Rightarrow> 32 word \<Rightarrow> (nat \<times> 32 word) list \<Rightarrow> (nat \<times> 32 word) list option" where
  "store_int a v [] = None"
| "store_int a v ((b, old) # objs) =
     (if a = b then Some ((b, v) # objs)
      else map_option ((#) (b, old)) (store_int a v objs))"

text \<open>
  One conversion applied to the next argument, after \<open>count\<close> characters of output: the
  characters it adds and the state afterwards. \<^verbatim>\<open>%c\<close> converts its \<^verbatim>\<open>int\<close> to
  \<^verbatim>\<open>unsigned char\<close> and writes that byte, whatever it is. \<^verbatim>\<open>%n\<close> adds nothing and stores
  the count.
\<close>

fun convert :: "char \<Rightarrow> arg \<Rightarrow> nat \<Rightarrow> process \<Rightarrow> (string \<times> process) option" where
  "convert c (Int_arg i) count p =
     (if c = CHR ''d'' \<or> c = CHR ''i''
      then Some (if sint i < 0 then CHR ''-'' # decimal (nat (- sint i))
                 else decimal (nat (sint i)), p)
      else if c = CHR ''c'' then Some ([char_of (uint i)], p)
      else None)"
| "convert c (UInt_arg u) count p =
     (if c = CHR ''u'' then Some (decimal (unat u), p) else None)"
| "convert c (Str_arg s) count p =
     (if c = CHR ''s'' then map_option (\<lambda>bytes. (c_string bytes, p)) s else None)"
| "convert c (Double_arg m e) count p =
     (if c = CHR ''f'' then map_option (\<lambda>digits. (digits, p)) (fixed6 (decimal_point p) m e)
      else None)"
| "convert c (Int_ptr_arg a) count p =
     (if c = CHR ''n'' \<and> count \<le> 2147483647
      then map_option (\<lambda>objs. ([], p\<lparr>int_objects := objs\<rparr>))
             (store_int a (of_nat count) (int_objects p))
      else None)"

text \<open>
  The output for a format and an argument list, continuing the output \<open>out\<close>. The format
  is read up to its terminator; ordinary characters are copied; arguments left over at the
  end are ignored, as the standard says; a conversion without an argument is undefined.
\<close>

fun render :: "string \<Rightarrow> arg list \<Rightarrow> string \<Rightarrow> process \<Rightarrow> (string \<times> process) option" where
  "render [] ap out p = Some (out, p)"
| "render (c # fmt) ap out p =
     (if c = NUL then Some (out, p)
      else if c \<noteq> CHR ''%'' then render fmt ap (out @ [c]) p
      else (case fmt of
              [] \<Rightarrow> None
            | d # fmt' \<Rightarrow>
                if d = CHR ''%'' then render fmt' ap (out @ [d]) p
                else (case ap of
                        [] \<Rightarrow> None
                      | a # ap' \<Rightarrow>
                          (case convert d a (length out) p of
                             None \<Rightarrow> None
                           | Some (s, p') \<Rightarrow> render fmt' ap' (out @ s) p'))))"

text \<open>
  The formatting: a null format is undefined, and an output longer than \<^verbatim>\<open>INT_MAX\<close> is a
  failure.
\<close>

definition printf_fragment :: "(arg, process) formatting" where
  "printf_fragment format ap p =
     (case format of
        None \<Rightarrow> None
      | Some fmt \<Rightarrow>
          (case render fmt ap [] p of
             None \<Rightarrow> None
           | Some (r, p') \<Rightarrow>
               Some (if length r \<le> 2147483647 then Complete r p' else Failed r p')))"

text \<open>A handler to observe calls with: each invocation records the message it is given.\<close>

definition recording_handler :: "string \<Rightarrow> process \<Rightarrow> process" where
  "recording_handler message p = p\<lparr>received := received p @ [message]\<rparr>"

text \<open>A process in the C locale, without \<^verbatim>\<open>int\<close> objects, in which nothing has been received.\<close>

definition quiet_process :: process where
  "quiet_process = \<lparr>decimal_point = CHR ''.'', int_objects = [], received = []\<rparr>"


section \<open>Properties of the statements\<close>

lemma c_string_no_NUL: "NUL \<notin> set xs \<Longrightarrow> c_string xs = xs"
  unfolding c_string_def by (induction xs) auto

lemma c_string_length: "length (c_string xs) \<le> length xs"
  by (simp add: c_string_def length_takeWhile_le)

lemma c_string_free: "NUL \<notin> set (c_string xs)"
  unfolding c_string_def by (induction xs) auto

lemma c_str_stored: "c_str (map Some xs @ Some NUL # rest) = Some (c_string xs)"
  by (induction xs) (simp_all add: c_string_def)

lemma store_bounded_fresh:
  "store_bounded (replicate 2048 None) 2048 r =
     map Some (take 2047 r) @ Some NUL # replicate (2047 - min (length r) 2047) None"
  by (simp add: store_bounded_def Let_def min_def)

lemma call_vsnprintf_enter:
  assumes "libc_format format args w = Some res"
  shows "call_vsnprintf libc_format format args (enter w) =
           Inr \<lparr>buffer = map Some (take 2047 (produced res)) @ Some NUL
                          # replicate (2047 - min (length (produced res)) 2047) None,
                world = after res\<rparr>"
  using assms by (simp add: call_vsnprintf_def enter_def vsnprintf_def store_bounded_fresh)

lemma call_swiftLogHandler_stored:
  "call_swiftLogHandler h \<lparr>buffer = map Some xs @ Some NUL # rest, world = w\<rparr> =
     Inr \<lparr>buffer = map Some xs @ Some NUL # rest, world = h (c_string xs) w\<rparr>"
  by (simp add: call_swiftLogHandler_def c_str_stored)

lemma logMessageCallback_defined:
  assumes "libc_format format args w = Some res"
  shows "logMessageCallback libc_format h format args w
           = Inr (h (c_string (take 2047 (produced res))) (after res))"
  using assms
  by (simp add: logMessageCallback_def call_swiftLogHandler_stored
      call_vsnprintf_enter [where libc_format = libc_format and res = res])

lemma logMessageCallback_undefined:
  assumes "libc_format format args w = None"
  shows "logMessageCallback libc_format h format args w = Inl Undefined"
  using assms by (simp add: logMessageCallback_def call_vsnprintf_def vsnprintf_def enter_def)


subsection \<open>Some calls of the written-out formatting\<close>

lemma char_of_zero: "char_of (0::int) = NUL"
  by (simp add: char_of_def NUL_def)

lemma fragment_value:
  "printf_fragment (Some ''value=%d'') [Int_arg 42] p = Some (Complete ''value=42'' p)"
  by (simp add: printf_fragment_def NUL_def decimal.simps digit_char_def)

lemma fragment_ready: "printf_fragment (Some ''ready'') [] p = Some (Complete ''ready'' p)"
  by (simp add: printf_fragment_def NUL_def)

lemma fragment_embedded:
  "printf_fragment (Some ''a%cb'') [Int_arg 0] p
     = Some (Complete [CHR ''a'', NUL, CHR ''b''] p)"
  by (simp add: printf_fragment_def char_of_zero) (simp add: NUL_def)

lemma render_string:
  "render ''%s'' [Str_arg (Some (replicate n CHR ''x''))] [] p
     = Some (replicate n CHR ''x'', p)"
  by (simp add: NUL_def c_string_def)

lemma fragment_long:
  "n \<le> 2147483647 \<Longrightarrow>
   printf_fragment (Some ''%s'') [Str_arg (Some (replicate n CHR ''x''))] p
     = Some (Complete (replicate n CHR ''x'') p)"
  by (simp add: printf_fragment_def render_string del: render.simps)

lemma fragment_too_long:
  "2147483647 < n \<Longrightarrow>
   printf_fragment (Some ''%s'') [Str_arg (Some (replicate n CHR ''x''))] p
     = Some (Failed (replicate n CHR ''x'') p)"
  by (simp add: printf_fragment_def render_string del: render.simps)

lemma fragment_long_embedded:
  "n < 2147483647 \<Longrightarrow>
   printf_fragment (Some ''%c%s'') [Int_arg 0, Str_arg (Some (replicate n CHR ''x''))] p
     = Some (Complete (NUL # replicate n CHR ''x'') p)"
  by (simp add: printf_fragment_def c_string_def char_of_zero) (simp add: NUL_def)

lemma fragment_count:
  "printf_fragment (Some ''ab%n'') [Int_ptr_arg 0]
     \<lparr>decimal_point = CHR ''.'', int_objects = [(0, 7)], received = []\<rparr>
   = Some (Complete ''ab''
       \<lparr>decimal_point = CHR ''.'', int_objects = [(0, 2)], received = []\<rparr>)"
  by (simp add: printf_fragment_def NUL_def)



section \<open>The contract of the bridge\<close>

text \<open>
  Throughout, \<open>libc_format\<close> is any formatting and \<open>swiftLogHandler\<close> any handler. A call
  has defined behaviour when \<open>libc_format format args w = Some res\<close>; it is a call whose
  complete output is \<open>r\<close> when \<open>res\<close> is \<open>Complete r w'\<close>. Such a hypothesis holds for
  every call that ISO C gives a meaning, with any conversions and arguments.
\<close>

subsection \<open>Output that fits\<close>

text \<open>
  Claim C1, as amended. For a call whose format is not null, whose arguments match its
  conversions and whose complete output is shorter than 2048 bytes and contains no zero
  byte, the handler is handed exactly that output. The handler receives a
  \<^verbatim>\<open>const char*\<close> and so a string that ends at the first zero byte; the restriction to
  outputs free of zero bytes is what the statement needs beyond its original wording.
\<close>

theorem logMessageCallback_exact:
  assumes "libc_format format args w = Some (Complete r w')"
    and "length r < 2048"
    and "NUL \<notin> set r"
  shows "logMessageCallback libc_format swiftLogHandler format args w
           = Inr (swiftLogHandler r w')"
  using assms
  by (simp add: c_string_no_NUL
      logMessageCallback_defined [where libc_format = libc_format and res = "Complete r w'"])

text \<open>
  The two scenarios of the specification: \<^verbatim>\<open>"value=%d"\<close> with 42, and the literal
  \<^verbatim>\<open>"ready"\<close>.
\<close>

theorem logMessageCallback_exact_witness:
  "printf_fragment (Some ''value=%d'') [Int_arg 42] quiet_process
     = Some (Complete ''value=42'' quiet_process)
   \<and> length ''value=42'' < 2048 \<and> NUL \<notin> set ''value=42''
   \<and> logMessageCallback printf_fragment recording_handler (Some ''value=%d'') [Int_arg 42]
        quiet_process
       = Inr (quiet_process\<lparr>received := [''value=42'']\<rparr>)
   \<and> printf_fragment (Some ''ready'') [] quiet_process = Some (Complete ''ready'' quiet_process)
   \<and> length ''ready'' < 2048 \<and> NUL \<notin> set ''ready''
   \<and> logMessageCallback printf_fragment recording_handler (Some ''ready'') [] quiet_process
       = Inr (quiet_process\<lparr>received := [''ready'']\<rparr>)"
proof -
  have vn: "length ''value=42'' < 2048" "NUL \<notin> set ''value=42''"
    by (simp_all add: NUL_def)
  have rn: "length ''ready'' < 2048" "NUL \<notin> set ''ready''"
    by (simp_all add: NUL_def)
  from logMessageCallback_exact
         [where libc_format = printf_fragment and swiftLogHandler = recording_handler,
          OF fragment_value vn]
       logMessageCallback_exact
         [where libc_format = printf_fragment and swiftLogHandler = recording_handler,
          OF fragment_ready rn]
  show ?thesis
    using vn rn
    by (simp add: fragment_value fragment_ready recording_handler_def quiet_process_def)
qed

text \<open>
  Without the restriction the statement fails. \<^verbatim>\<open>%c\<close> given 0 writes a zero byte: the
  output of \<^verbatim>\<open>"a%cb"\<close> has the three bytes \<open>a\<close>, 0, \<open>b\<close>, and the handler is handed the
  string \<open>a\<close>, not that output.
\<close>

theorem logMessageCallback_exact_counterexample:
  "printf_fragment (Some ''a%cb'') [Int_arg 0] quiet_process
     = Some (Complete [CHR ''a'', NUL, CHR ''b''] quiet_process)
   \<and> length [CHR ''a'', NUL, CHR ''b''] < 2048
   \<and> logMessageCallback printf_fragment recording_handler (Some ''a%cb'') [Int_arg 0]
        quiet_process
       = Inr (recording_handler ''a'' quiet_process)
   \<and> logMessageCallback printf_fragment recording_handler (Some ''a%cb'') [Int_arg 0]
        quiet_process
       \<noteq> Inr (recording_handler [CHR ''a'', NUL, CHR ''b''] quiet_process)"
proof -
  have call: "logMessageCallback printf_fragment recording_handler (Some ''a%cb'') [Int_arg 0]
                quiet_process
              = Inr (recording_handler (c_string (take 2047 [CHR ''a'', NUL, CHR ''b'']))
                  quiet_process)"
    using logMessageCallback_defined [where libc_format = printf_fragment, OF fragment_embedded]
    by simp
  have msg: "c_string (take 2047 [CHR ''a'', NUL, CHR ''b'']) = ''a''"
    by (simp add: c_string_def) (simp add: NUL_def)
  have differ: "recording_handler ''a'' quiet_process
                \<noteq> recording_handler [CHR ''a'', NUL, CHR ''b''] quiet_process"
    by (simp add: recording_handler_def quiet_process_def)
  show ?thesis
    using fragment_embedded [of quiet_process] call msg differ by simp
qed

subsection \<open>Output that does not fit\<close>

text \<open>
  Claim C2, as amended. For a call whose complete output has 2048 bytes or more, none of
  the first 2047 being zero, the handler is handed exactly those first 2047 bytes, and the
  call returns normally: nothing signals the truncation.
\<close>

theorem logMessageCallback_truncated:
  assumes "libc_format format args w = Some (Complete r w')"
    and "2048 \<le> length r"
    and "NUL \<notin> set (take 2047 r)"
  shows "logMessageCallback libc_format swiftLogHandler format args w
           = Inr (swiftLogHandler (take 2047 r) w')
         \<and> length (take 2047 r) = 2047"
  using assms
  by (simp add: c_string_no_NUL
      logMessageCallback_defined [where libc_format = libc_format and res = "Complete r w'"])

text \<open>The scenario of the specification: \<^verbatim>\<open>"%s"\<close> with 3000 times \<open>x\<close>.\<close>

theorem logMessageCallback_truncated_witness:
  "printf_fragment (Some ''%s'') [Str_arg (Some (replicate 3000 CHR ''x''))] quiet_process
     = Some (Complete (replicate 3000 CHR ''x'') quiet_process)
   \<and> 2048 \<le> length (replicate 3000 CHR ''x'')
   \<and> NUL \<notin> set (take 2047 (replicate 3000 CHR ''x''))
   \<and> logMessageCallback printf_fragment recording_handler (Some ''%s'')
        [Str_arg (Some (replicate 3000 CHR ''x''))] quiet_process
       = Inr (quiet_process\<lparr>received := [replicate 2047 CHR ''x'']\<rparr>)"
proof -
  have fmt: "printf_fragment (Some ''%s'') [Str_arg (Some (replicate 3000 CHR ''x''))]
               quiet_process
             = Some (Complete (replicate 3000 CHR ''x'') quiet_process)"
    by (rule fragment_long) simp
  have len: "2048 \<le> length (replicate 3000 CHR ''x'')"
    by simp
  have free: "NUL \<notin> set (take 2047 (replicate 3000 CHR ''x''))"
    by (simp add: NUL_def)
  from logMessageCallback_truncated
         [where libc_format = printf_fragment and swiftLogHandler = recording_handler,
          OF fmt len free]
  show ?thesis
    using fmt len free by (simp add: recording_handler_def quiet_process_def)
qed

text \<open>
  With a zero byte among the first 2047 the statement fails: the output of \<^verbatim>\<open>"%c%s"\<close>
  for 0 and 3000 times \<open>x\<close> has 3001 bytes, and the handler is handed the empty string,
  not the first 2047 of them.
\<close>

theorem logMessageCallback_truncated_counterexample:
  "printf_fragment (Some ''%c%s'') [Int_arg 0, Str_arg (Some (replicate 3000 CHR ''x''))]
     quiet_process
     = Some (Complete (NUL # replicate 3000 CHR ''x'') quiet_process)
   \<and> 2048 \<le> length (NUL # replicate 3000 CHR ''x'')
   \<and> logMessageCallback printf_fragment recording_handler (Some ''%c%s'')
        [Int_arg 0, Str_arg (Some (replicate 3000 CHR ''x''))] quiet_process
       = Inr (recording_handler [] quiet_process)
   \<and> logMessageCallback printf_fragment recording_handler (Some ''%c%s'')
        [Int_arg 0, Str_arg (Some (replicate 3000 CHR ''x''))] quiet_process
       \<noteq> Inr (recording_handler (take 2047 (NUL # replicate 3000 CHR ''x'')) quiet_process)"
proof -
  have fmt: "printf_fragment (Some ''%c%s'')
               [Int_arg 0, Str_arg (Some (replicate 3000 CHR ''x''))] quiet_process
             = Some (Complete (NUL # replicate 3000 CHR ''x'') quiet_process)"
    by (rule fragment_long_embedded) simp
  have call: "logMessageCallback printf_fragment recording_handler (Some ''%c%s'')
                [Int_arg 0, Str_arg (Some (replicate 3000 CHR ''x''))] quiet_process
              = Inr (recording_handler (c_string (take 2047 (NUL # replicate 3000 CHR ''x'')))
                  quiet_process)"
    using logMessageCallback_defined [where libc_format = printf_fragment, OF fmt] by simp
  have msg: "c_string (take 2047 (NUL # replicate 3000 CHR ''x'')) = []"
    by (simp add: c_string_def)
  have differ: "recording_handler [] quiet_process
                \<noteq> recording_handler (take 2047 (NUL # replicate 3000 CHR ''x'')) quiet_process"
    by (simp add: recording_handler_def quiet_process_def)
  show ?thesis
    using fmt call msg differ by simp
qed

subsection \<open>One invocation of the handler\<close>

text \<open>
  Claim C3. Every call with defined behaviour invokes the handler exactly once, whatever
  the format and the arguments, truncated or not, and also when the library call fails:
  the outer state after the call is the result of one application of the handler to the
  state the library call left. So whatever counts the invocations of the handler stands
  exactly one higher after the call than when the library call returned.
\<close>

theorem logMessageCallback_invokes_once:
  assumes "libc_format format args w = Some res"
  shows "(\<exists>message.
            logMessageCallback libc_format swiftLogHandler format args w
              = Inr (swiftLogHandler message (after res)))
         \<and> ((\<forall>m v. count (swiftLogHandler m v) = Suc (count v)) \<longrightarrow>
              (\<exists>w'. logMessageCallback libc_format swiftLogHandler format args w = Inr w'
                    \<and> count w' = Suc (count (after res))))"
  using assms
  by (auto simp add: logMessageCallback_defined [where libc_format = libc_format and res = res])

theorem logMessageCallback_invokes_once_witness:
  "printf_fragment (Some ''value=%d'') [Int_arg 42] quiet_process
     = Some (Complete ''value=42'' quiet_process)
   \<and> (\<forall>m v. length (received (recording_handler m v)) = Suc (length (received v)))
   \<and> (\<exists>w'. logMessageCallback printf_fragment recording_handler (Some ''value=%d'')
              [Int_arg 42] quiet_process = Inr w'
            \<and> length (received w') = Suc (length (received quiet_process)))"
proof -
  have counts: "\<forall>m v. length (received (recording_handler m v)) = Suc (length (received v))"
    by (simp add: recording_handler_def)
  from logMessageCallback_invokes_once
         [where libc_format = printf_fragment and swiftLogHandler = recording_handler
            and count = "\<lambda>p. length (received p)", OF fragment_value, of quiet_process]
  show ?thesis
    using counts fragment_value [of quiet_process] by simp
qed

subsection \<open>The address of the callback\<close>

text \<open>
  Claim C4. \<^verbatim>\<open>getLogMessageCallbackPointer\<close> returns the address of
  \<^verbatim>\<open>logMessageCallback\<close>; the value is not the null pointer, and it is the same for any
  two calls, in whatever states they are made.
\<close>

theorem getLogMessageCallbackPointer_stable:
  "fst (getLogMessageCallbackPointer w) = Fun_ptr Fn_logMessageCallback
   \<and> fst (getLogMessageCallbackPointer w) \<noteq> Null_ptr
   \<and> fst (getLogMessageCallbackPointer w) = fst (getLogMessageCallbackPointer w')"
  by (simp add: getLogMessageCallbackPointer_def)

subsection \<open>No error\<close>

text \<open>
  Claim C5. A call with defined behaviour returns normally, with nothing but the outer
  state the handler left; there is no outcome that reports an error, not even where
  \<^verbatim>\<open>vsnprintf\<close> itself fails, since the value it returns is dropped. Truncation is not
  reported either, to the caller or to the handler: a call whose output is cut at 2047
  bytes has the same effect as any call for which the library leaves the same state and
  an output that agrees on the first 2047 bytes, for instance just those bytes.
\<close>

theorem logMessageCallback_no_error:
  assumes "libc_format format args w = Some res"
    and "libc_format format' args' w = Some res'"
    and "take 2047 (produced res') = take 2047 (produced res)"
    and "after res' = after res"
  shows "(\<exists>w'. logMessageCallback libc_format swiftLogHandler format args w = Inr w')
         \<and> logMessageCallback libc_format swiftLogHandler format args w
             = logMessageCallback libc_format swiftLogHandler format' args' w"
  using assms
  by (simp add: logMessageCallback_defined [where libc_format = libc_format and res = res]
      logMessageCallback_defined [where libc_format = libc_format and res = res'])

theorem logMessageCallback_no_error_witness:
  "printf_fragment (Some ''%s'') [Str_arg (Some (replicate 3000 CHR ''x''))] quiet_process
     = Some (Complete (replicate 3000 CHR ''x'') quiet_process)
   \<and> printf_fragment (Some ''%s'') [Str_arg (Some (replicate 2047 CHR ''x''))] quiet_process
     = Some (Complete (replicate 2047 CHR ''x'') quiet_process)
   \<and> take 2047 (replicate 2047 CHR ''x'') = take 2047 (replicate 3000 CHR ''x'')
   \<and> (\<exists>w'. logMessageCallback printf_fragment recording_handler (Some ''%s'')
              [Str_arg (Some (replicate 3000 CHR ''x''))] quiet_process = Inr w')
   \<and> logMessageCallback printf_fragment recording_handler (Some ''%s'')
        [Str_arg (Some (replicate 3000 CHR ''x''))] quiet_process
       = logMessageCallback printf_fragment recording_handler (Some ''%s'')
           [Str_arg (Some (replicate 2047 CHR ''x''))] quiet_process"
proof -
  have long: "printf_fragment (Some ''%s'') [Str_arg (Some (replicate 3000 CHR ''x''))]
                quiet_process
              = Some (Complete (replicate 3000 CHR ''x'') quiet_process)"
    by (rule fragment_long) simp
  have short: "printf_fragment (Some ''%s'') [Str_arg (Some (replicate 2047 CHR ''x''))]
                 quiet_process
               = Some (Complete (replicate 2047 CHR ''x'') quiet_process)"
    by (rule fragment_long) simp
  have same: "take 2047 (replicate 2047 CHR ''x'') = take 2047 (replicate 3000 CHR ''x'')"
    by simp
  have prefix: "take 2047 (produced (Complete (replicate 2047 CHR ''x'') quiet_process))
                = take 2047 (produced (Complete (replicate 3000 CHR ''x'') quiet_process))"
    by simp
  have state: "after (Complete (replicate 2047 CHR ''x'') quiet_process)
               = after (Complete (replicate 3000 CHR ''x'') quiet_process)"
    by simp
  from logMessageCallback_no_error
         [where libc_format = printf_fragment and swiftLogHandler = recording_handler,
          OF long short prefix state]
  show ?thesis
    using long short same by blast
qed

subsection \<open>Order of execution\<close>

text \<open>
  Claim C6. Every call with defined behaviour runs in sequence. The formatting ends in a
  state \<open>s1\<close> whose array holds the complete, terminated text while the outer state is
  the one the library call left: the handler has not run. The handler is then invoked on
  \<open>s1\<close>, reads that text, and ends in a state \<open>s2\<close>; what the call returns is the outer
  state of \<open>s2\<close>, the one the handler left when it returned.
\<close>

theorem logMessageCallback_sequential:
  assumes "libc_format format args w = Some res"
  shows "\<exists>s1 s2.
           call_vsnprintf libc_format format args (enter w) = Inr s1
           \<and> buffer s1 = map Some (take 2047 (produced res)) @ Some NUL
                          # replicate (2047 - min (length (produced res)) 2047) None
           \<and> world s1 = after res
           \<and> call_swiftLogHandler swiftLogHandler s1 = Inr s2
           \<and> world s2 = swiftLogHandler (c_string (take 2047 (produced res))) (after res)
           \<and> buffer s2 = buffer s1
           \<and> logMessageCallback libc_format swiftLogHandler format args w = Inr (world s2)"
  using assms
  by (simp add: call_swiftLogHandler_stored
      call_vsnprintf_enter [where libc_format = libc_format and res = res]
      logMessageCallback_defined [where libc_format = libc_format and res = res])

theorem logMessageCallback_sequential_witness:
  "printf_fragment (Some ''ready'') [] quiet_process = Some (Complete ''ready'' quiet_process)
   \<and> (\<exists>s1 s2.
         call_vsnprintf printf_fragment (Some ''ready'') [] (enter quiet_process) = Inr s1
         \<and> world s1 = quiet_process
         \<and> call_swiftLogHandler recording_handler s1 = Inr s2
         \<and> world s2 = quiet_process\<lparr>received := [''ready'']\<rparr>
         \<and> logMessageCallback printf_fragment recording_handler (Some ''ready'') []
              quiet_process
             = Inr (world s2))"
proof -
  have msg: "recording_handler (c_string (take 2047 ''ready'')) quiet_process
             = quiet_process\<lparr>received := [''ready'']\<rparr>"
    by (simp add: c_string_def NUL_def recording_handler_def quiet_process_def)
  from logMessageCallback_sequential
         [where libc_format = printf_fragment and swiftLogHandler = recording_handler,
          OF fragment_ready, of quiet_process]
  obtain s1 s2 where
    "call_vsnprintf printf_fragment (Some ''ready'') [] (enter quiet_process) = Inr s1"
    "world s1 = quiet_process"
    "call_swiftLogHandler recording_handler s1 = Inr s2"
    "world s2 = recording_handler (c_string (take 2047 ''ready'')) quiet_process"
    "logMessageCallback printf_fragment recording_handler (Some ''ready'') [] quiet_process
       = Inr (world s2)"
    by auto
  then show ?thesis
    using fragment_ready [of quiet_process] msg by auto
qed

subsection \<open>Effects\<close>

text \<open>
  Claim C7, as amended. Neither operation keeps state of its own: the bridge has no
  persistent data to read or change. The effects of a call of \<^verbatim>\<open>logMessageCallback\<close> with
  defined behaviour are those of its \<^verbatim>\<open>vsnprintf\<close> call on the state of the caller (a
  \<^verbatim>\<open>%n\<close> conversion stores through its pointer argument), followed by one invocation of
  the handler; where the library call leaves the state as it was, the invocation of the
  handler is the only effect. \<^verbatim>\<open>getLogMessageCallbackPointer\<close> leaves the state as it found
  it; in particular the handler is not invoked.
\<close>

theorem bridge_effects:
  assumes "libc_format format args w = Some res"
  shows "logMessageCallback libc_format swiftLogHandler format args w
           = Inr (swiftLogHandler (c_string (take 2047 (produced res))) (after res))
         \<and> (after res = w \<longrightarrow>
              logMessageCallback libc_format swiftLogHandler format args w
                = Inr (swiftLogHandler (c_string (take 2047 (produced res))) w))
         \<and> getLogMessageCallbackPointer w = (Fun_ptr Fn_logMessageCallback, w)"
  using assms
  by (simp add: getLogMessageCallbackPointer_def
      logMessageCallback_defined [where libc_format = libc_format and res = res])

theorem bridge_effects_witness:
  "printf_fragment (Some ''ready'') [] quiet_process = Some (Complete ''ready'' quiet_process)
   \<and> after (Complete ''ready'' quiet_process) = quiet_process
   \<and> logMessageCallback printf_fragment recording_handler (Some ''ready'') [] quiet_process
       = Inr (quiet_process\<lparr>received := [''ready'']\<rparr>)
   \<and> getLogMessageCallbackPointer quiet_process = (Fun_ptr Fn_logMessageCallback, quiet_process)"
proof -
  have msg: "recording_handler (c_string (take 2047 (produced (Complete ''ready'' quiet_process))))
               quiet_process
             = quiet_process\<lparr>received := [''ready'']\<rparr>"
    by (simp add: c_string_def NUL_def recording_handler_def quiet_process_def)
  from bridge_effects
         [where libc_format = printf_fragment and swiftLogHandler = recording_handler,
          OF fragment_ready, of quiet_process]
  show ?thesis
    using fragment_ready [of quiet_process] msg by simp
qed

text \<open>
  The invocation of the handler is not the only effect of every call. With \<^verbatim>\<open>"ab%n"\<close> and
  the address of an \<^verbatim>\<open>int\<close> that holds 7, the call leaves 2 in that \<^verbatim>\<open>int\<close>, which no
  invocation of the handler on the state before the call accounts for.
\<close>

theorem bridge_effects_counterexample:
  "printf_fragment (Some ''ab%n'') [Int_ptr_arg 0]
     \<lparr>decimal_point = CHR ''.'', int_objects = [(0, 7)], received = []\<rparr>
     = Some (Complete ''ab''
         \<lparr>decimal_point = CHR ''.'', int_objects = [(0, 2)], received = []\<rparr>)
   \<and> logMessageCallback printf_fragment recording_handler (Some ''ab%n'') [Int_ptr_arg 0]
        \<lparr>decimal_point = CHR ''.'', int_objects = [(0, 7)], received = []\<rparr>
       = Inr \<lparr>decimal_point = CHR ''.'', int_objects = [(0, 2)], received = [''ab'']\<rparr>
   \<and> recording_handler ''ab''
        \<lparr>decimal_point = CHR ''.'', int_objects = [(0, 7)], received = []\<rparr>
       = \<lparr>decimal_point = CHR ''.'', int_objects = [(0, 7)], received = [''ab'']\<rparr>
   \<and> logMessageCallback printf_fragment recording_handler (Some ''ab%n'') [Int_ptr_arg 0]
        \<lparr>decimal_point = CHR ''.'', int_objects = [(0, 7)], received = []\<rparr>
       \<noteq> Inr (recording_handler ''ab''
               \<lparr>decimal_point = CHR ''.'', int_objects = [(0, 7)], received = []\<rparr>)"
proof -
  have call: "logMessageCallback printf_fragment recording_handler (Some ''ab%n'')
                [Int_ptr_arg 0]
                \<lparr>decimal_point = CHR ''.'', int_objects = [(0, 7)], received = []\<rparr>
              = Inr (recording_handler (c_string (take 2047 ''ab''))
                  \<lparr>decimal_point = CHR ''.'', int_objects = [(0, 2)], received = []\<rparr>)"
    using logMessageCallback_defined [where libc_format = printf_fragment, OF fragment_count]
    by simp
  have msg: "c_string (take 2047 ''ab'') = ''ab''"
    by (simp add: c_string_def NUL_def)
  show ?thesis
    using fragment_count call msg by (simp add: recording_handler_def)
qed

subsection \<open>Determinism\<close>




subsection \<open>The text is terminated and stays inside the array\<close>

text \<open>
  Claim C10. For every call with defined behaviour, truncated or not, and also when the
  library call fails, the array after the formatting still has its 2048 cells; it holds
  at most 2047 bytes of output, then the terminator, and cells after the terminator have
  not been stored to. The string that starts the array is therefore defined, has at most
  2047 characters none of which is zero, and is what the handler receives.
\<close>

theorem logMessageCallback_terminated:
  assumes "libc_format format args w = Some res"
  shows "\<exists>s1 message.
           call_vsnprintf libc_format format args (enter w) = Inr s1
           \<and> length (buffer s1) = 2048
           \<and> buffer s1 = map Some (take 2047 (produced res)) @ Some NUL
                          # replicate (2047 - min (length (produced res)) 2047) None
           \<and> c_str (buffer s1) = Some message
           \<and> length message \<le> 2047
           \<and> NUL \<notin> set message
           \<and> logMessageCallback libc_format swiftLogHandler format args w
               = Inr (swiftLogHandler message (after res))"
proof -
  have "length (c_string (take 2047 (produced res))) \<le> length (take 2047 (produced res))"
    by (rule c_string_length)
  then have "length (c_string (take 2047 (produced res))) \<le> 2047"
    by simp
  then show ?thesis
    using assms
    by (simp add: c_str_stored c_string_free
        call_vsnprintf_enter [where libc_format = libc_format and res = res]
        logMessageCallback_defined [where libc_format = libc_format and res = res])
qed

text \<open>
  Two instances: an output of 3000 bytes, and one of 3000000000 bytes, longer than
  \<^verbatim>\<open>INT_MAX\<close>, for which \<^verbatim>\<open>vsnprintf\<close> fails.
\<close>

theorem logMessageCallback_terminated_witness:
  "printf_fragment (Some ''%s'') [Str_arg (Some (replicate 3000 CHR ''x''))] quiet_process
     = Some (Complete (replicate 3000 CHR ''x'') quiet_process)
   \<and> (\<exists>s1 message.
         call_vsnprintf printf_fragment (Some ''%s'')
           [Str_arg (Some (replicate 3000 CHR ''x''))] (enter quiet_process) = Inr s1
         \<and> length (buffer s1) = 2048
         \<and> c_str (buffer s1) = Some message
         \<and> length message \<le> 2047
         \<and> NUL \<notin> set message
         \<and> logMessageCallback printf_fragment recording_handler (Some ''%s'')
              [Str_arg (Some (replicate 3000 CHR ''x''))] quiet_process
             = Inr (recording_handler message quiet_process))
   \<and> printf_fragment (Some ''%s'') [Str_arg (Some (replicate 3000000000 CHR ''x''))]
        quiet_process
     = Some (Failed (replicate 3000000000 CHR ''x'') quiet_process)
   \<and> (\<exists>s1 message.
         call_vsnprintf printf_fragment (Some ''%s'')
           [Str_arg (Some (replicate 3000000000 CHR ''x''))] (enter quiet_process) = Inr s1
         \<and> length (buffer s1) = 2048
         \<and> c_str (buffer s1) = Some message
         \<and> length message \<le> 2047
         \<and> NUL \<notin> set message
         \<and> logMessageCallback printf_fragment recording_handler (Some ''%s'')
              [Str_arg (Some (replicate 3000000000 CHR ''x''))] quiet_process
             = Inr (recording_handler message quiet_process))"
proof -
  have long: "printf_fragment (Some ''%s'') [Str_arg (Some (replicate 3000 CHR ''x''))]
                quiet_process
              = Some (Complete (replicate 3000 CHR ''x'') quiet_process)"
    by (rule fragment_long) simp
  have huge: "printf_fragment (Some ''%s'') [Str_arg (Some (replicate 3000000000 CHR ''x''))]
                quiet_process
              = Some (Failed (replicate 3000000000 CHR ''x'') quiet_process)"
    by (rule fragment_too_long) simp
  from logMessageCallback_terminated
         [where libc_format = printf_fragment and swiftLogHandler = recording_handler, OF long]
  have first: "\<exists>s1 message.
         call_vsnprintf printf_fragment (Some ''%s'')
           [Str_arg (Some (replicate 3000 CHR ''x''))] (enter quiet_process) = Inr s1
         \<and> length (buffer s1) = 2048
         \<and> c_str (buffer s1) = Some message
         \<and> length message \<le> 2047
         \<and> NUL \<notin> set message
         \<and> logMessageCallback printf_fragment recording_handler (Some ''%s'')
              [Str_arg (Some (replicate 3000 CHR ''x''))] quiet_process
             = Inr (recording_handler message quiet_process)"
    by auto
  from logMessageCallback_terminated
         [where libc_format = printf_fragment and swiftLogHandler = recording_handler, OF huge]
  have second: "\<exists>s1 message.
         call_vsnprintf printf_fragment (Some ''%s'')
           [Str_arg (Some (replicate 3000000000 CHR ''x''))] (enter quiet_process) = Inr s1
         \<and> length (buffer s1) = 2048
         \<and> c_str (buffer s1) = Some message
         \<and> length message \<le> 2047
         \<and> NUL \<notin> set message
         \<and> logMessageCallback printf_fragment recording_handler (Some ''%s'')
              [Str_arg (Some (replicate 3000000000 CHR ''x''))] quiet_process
             = Inr (recording_handler message quiet_process)"
    by auto
  show ?thesis
    using long huge first second by blast
qed

end
